theory Spec2Isabelle
  imports Complex_Main
begin

section \<open>JavaScript values\<close>

text \<open>
  The validation middleware works on the parsed request body, so the values it sees are
  the JSON values plus \<open>undefined\<close> (an absent property). Numbers are exact rationals
  or \<open>NaN\<close>; rounding and the infinities are outside the model. A string is a list of
  8-bit code units, read as the code points U+0000 to U+00FF. An object is its property
  list, looked up by the first binding of a key.
\<close>

datatype jsnumber = NaN | Num rat

datatype jsval =
    JUndefined
  | JNull
  | JBool bool
  | JNum jsnumber
  | JStr string
  | JArr "jsval list"
  | JObj "(string \<times> jsval) list"

datatype exn = TypeError | Error string

type_synonym obj = "(string \<times> jsval) list"

text \<open>ToBoolean: what \<open>if (v)\<close>, \<open>!v\<close>, \<open>&&\<close> and \<open>||\<close> test.\<close>

fun truthy :: "jsval \<Rightarrow> bool" where
  "truthy JUndefined = False"
| "truthy JNull = False"
| "truthy (JBool b) = b"
| "truthy (JNum NaN) = False"
| "truthy (JNum (Num x)) = (x \<noteq> 0)"
| "truthy (JStr s) = (s \<noteq> [])"
| "truthy (JArr xs) = True"
| "truthy (JObj ps) = True"

definition js_or :: "jsval \<Rightarrow> jsval \<Rightarrow> jsval" where
  "js_or a b = (if truthy a then a else b)"

definition js_and :: "jsval \<Rightarrow> jsval \<Rightarrow> jsval" where
  "js_and a b = (if truthy a then b else a)"

text \<open>
  Property reads. \<open>field\<close> reads a property of an object; \<open>get_prop\<close> is \<open>v.k\<close> on a
  value that is neither \<open>undefined\<close> nor \<open>null\<close>, for the property names this module
  reads (none of them is defined on a primitive or an array, where the read gives
  \<open>undefined\<close>). Every nested read of the module is guarded by a truthiness or
  plain-object test, so the read of a property of \<open>undefined\<close> never arises below the
  request body, and the request body is an object.
\<close>

definition field :: "obj \<Rightarrow> string \<Rightarrow> jsval" where
  "field ps k = (case map_of ps k of None \<Rightarrow> JUndefined | Some v \<Rightarrow> v)"

fun get_prop :: "jsval \<Rightarrow> string \<Rightarrow> jsval" where
  "get_prop (JObj ps) k = field ps k"
| "get_prop _ k = JUndefined"

text \<open>
  \<open>x == ""\<close>: a string is compared as it is, a number and a boolean by their numeric
  value against \<open>0\<close>, an array through its \<open>join\<close>, and nothing else is equal to the
  empty string. \<open>str_empty\<close> says that an array element prints as the empty string.
\<close>

fun str_empty :: "jsval \<Rightarrow> bool" where
  "str_empty JUndefined = True"
| "str_empty JNull = True"
| "str_empty (JStr s) = (s = [])"
| "str_empty (JArr []) = True"
| "str_empty (JArr [x]) = str_empty x"
| "str_empty _ = False"

fun loose_eq_empty :: "jsval \<Rightarrow> bool" where
  "loose_eq_empty (JStr s) = (s = [])"
| "loose_eq_empty (JNum (Num x)) = (x = 0)"
| "loose_eq_empty (JBool b) = (\<not> b)"
| "loose_eq_empty (JArr xs) = str_empty (JArr xs)"
| "loose_eq_empty _ = False"

section \<open>Strings\<close>

definition toLowerChar :: "char \<Rightarrow> char" where
  "toLowerChar c = (let n = (of_char c :: nat) in
     if (65 \<le> n \<and> n \<le> 90) \<or> (192 \<le> n \<and> n \<le> 222 \<and> n \<noteq> 215)
     then (case c of Char b0 b1 b2 b3 b4 b5 b6 b7 \<Rightarrow> Char b0 b1 b2 b3 b4 True b6 b7)
     else c)"

definition toLowerCase :: "string \<Rightarrow> string" where
  "toLowerCase s = map toLowerChar s"

text \<open>White space and line terminators, as \<open>trim\<close> and \<open>parseInt\<close> skip them.\<close>

definition isWhiteSpace :: "char \<Rightarrow> bool" where
  "isWhiteSpace c = (of_char c \<in> {9, 10, 11, 12, 13, 32, 160 :: nat})"

definition trim :: "string \<Rightarrow> string" where
  "trim s = rev (dropWhile isWhiteSpace (rev (dropWhile isWhiteSpace s)))"

text \<open>\<open>validator.isEmpty(x, { ignore_whitespace: true })\<close> and \<open>validator.isIn\<close>.\<close>

definition validator_isEmpty :: "string \<Rightarrow> bool" where
  "validator_isEmpty s = (length (trim s) = 0)"

definition validator_isIn :: "string \<Rightarrow> string list \<Rightarrow> bool" where
  "validator_isIn s options = (s \<in> set options)"

section \<open>validatorUtils\<close>

fun isString :: "jsval \<Rightarrow> bool" where
  "isString (JStr s) = True"
| "isString _ = False"

fun isNonEmptyString :: "jsval \<Rightarrow> bool" where
  "isNonEmptyString (JStr s) = (isString (JStr s) \<and> \<not> validator_isEmpty s)"
| "isNonEmptyString _ = False"

fun isObject :: "jsval \<Rightarrow> bool" where
  "isObject (JObj ps) = True"
| "isObject _ = False"

section \<open>The collaborators outside the repository\<close>

text \<open>
  The supported-type table of the rendering package (an input type and the output types
  it converts to), the formatter deserializer (\<open>telejson_throws\<close>: the parse raises), the
  size formatter of the \<open>bytes\<close> package and the byte length of
  \<open>Buffer.from(content, encoding)\<close> are parameters. \<open>fileTypes\<close> holds the table's own
  keys, each with its array of output types.
\<close>

record env =
  fileTypes :: "string \<Rightarrow> string list option"
  telejson_throws :: "jsval \<Rightarrow> bool"
  bytes_format :: "jsval \<Rightarrow> string"
  buffer_length :: "jsval \<Rightarrow> jsval \<Rightarrow> nat"

text \<open>
  The table is an ordinary object, and the module reads it with \<open>k in fileTypes\<close> and
  \<open>fileTypes[k]\<close>. Both see, besides the own keys, the properties every object inherits
  from \<open>Object.prototype\<close>. The value of an inherited property is a function (for
  \<open>__proto__\<close>, the prototype object): it is truthy, it is not an array, and it has no
  \<open>includes\<close> method. An own key hides an inherited property of the same name.
\<close>

definition object_prototype_names :: "string list" where
  "object_prototype_names =
     [''constructor'', ''__defineGetter__'', ''__defineSetter__'', ''hasOwnProperty'',
      ''__lookupGetter__'', ''__lookupSetter__'', ''isPrototypeOf'', ''propertyIsEnumerable'',
      ''toString'', ''valueOf'', ''__proto__'', ''toLocaleString'']"

datatype property = Targets "string list" | PrototypeMember

definition fileTypes_get :: "env \<Rightarrow> string \<Rightarrow> property option" where
  "fileTypes_get E k =
     (case fileTypes E k of
        Some targets \<Rightarrow> Some (Targets targets)
      | None \<Rightarrow> if k \<in> set object_prototype_names then Some PrototypeMember else None)"

definition in_fileTypes :: "env \<Rightarrow> string \<Rightarrow> bool" where
  "in_fileTypes E k = (fileTypes_get E k \<noteq> None)"

subsection \<open>bytes.parse\<close>

text \<open>
  \<open>parse\<close> of the \<open>bytes\<close> package: a number that is not \<open>NaN\<close> is returned as it is;
  anything else that is not a string gives \<open>null\<close>; a string matching
  \<open>/^((-|\+)?(\d+(?:\.\d+)?)) *(kb|mb|gb|tb|pb)$/i\<close> gives the floor of the number times
  the unit; any other string goes through \<open>parseInt(val, 10)\<close> with the unit \<open>b\<close>, and
  gives \<open>null\<close> when that is \<open>NaN\<close>. No path of it raises: \<open>null\<close> (here \<open>None\<close>) is how
  it reports a value it cannot parse, and the size check below tests for exactly that
  (\<open>!attachmentLimit || isNaN(attachmentLimit)\<close>). The package is not part of the
  repository; this is its published behaviour, with the product computed exactly.
\<close>

definition isDigit :: "char \<Rightarrow> bool" where
  "isDigit c = (c \<in> set ''0123456789'')"

definition digitsVal :: "string \<Rightarrow> nat" where
  "digitsVal ds = foldl (\<lambda>a c. 10 * a + (of_char c - 48)) 0 ds"

fun split_sign :: "string \<Rightarrow> rat \<times> string" where
  "split_sign [] = (1, [])"
| "split_sign (c # cs) =
     (if c = CHR ''-'' then (- 1, cs) else if c = CHR ''+'' then (1, cs) else (1, c # cs))"

definition unit_map :: "string \<Rightarrow> nat option" where
  "unit_map = map_of [(''b'', 1), (''kb'', 2 ^ 10), (''mb'', 2 ^ 20), (''gb'', 2 ^ 30),
     (''tb'', 1024 ^ 4), (''pb'', 1024 ^ 5)]"

text \<open>The match of the regular expression: the number of group 1 and the unit of group 4.\<close>

definition parseRegExp_exec :: "string \<Rightarrow> (rat \<times> string) option" where
  "parseRegExp_exec s =
     (let (sg, r0) = split_sign s;
          ip = takeWhile isDigit r0;
          r1 = dropWhile isDigit r0;
          fp = (case r1 of [] \<Rightarrow> [] | c # cs \<Rightarrow> if c = CHR ''.'' then takeWhile isDigit cs else []);
          r2 = (if fp = [] then r1 else dropWhile isDigit (tl r1));
          r3 = dropWhile (\<lambda>c. c = CHR '' '') r2
      in if ip \<noteq> [] \<and> toLowerCase r3 \<in> set [''kb'', ''mb'', ''gb'', ''tb'', ''pb'']
         then Some (sg * (of_nat (digitsVal ip) + of_nat (digitsVal fp) / 10 ^ length fp),
                    toLowerCase r3)
         else None)"

definition parseInt10 :: "string \<Rightarrow> jsnumber" where
  "parseInt10 s =
     (let (sg, r) = split_sign (dropWhile isWhiteSpace s);
          ds = takeWhile isDigit r
      in if ds = [] then NaN else Num (sg * of_nat (digitsVal ds)))"

fun bytes_parse :: "jsval \<Rightarrow> jsnumber option" where
  "bytes_parse (JNum (Num x)) = Some (Num x)"
| "bytes_parse (JStr s) =
     (case parseRegExp_exec s of
        None \<Rightarrow>
          (case parseInt10 s of
             NaN \<Rightarrow> None
           | Num n \<Rightarrow> Some (Num (of_int \<lfloor>of_nat (case unit_map ''b'' of Some m \<Rightarrow> m | None \<Rightarrow> 0) * n\<rfloor>)))
      | Some (x, u) \<Rightarrow>
          Some (Num (of_int \<lfloor>of_nat (case unit_map u of Some m \<Rightarrow> m | None \<Rightarrow> 0) * x\<rfloor>)))"
| "bytes_parse _ = None"

text \<open>The result of \<open>bytes.parse\<close> as a value again: \<open>null\<close> or the number.\<close>

fun of_parsed :: "jsnumber option \<Rightarrow> jsval" where
  "of_parsed None = JNull"
| "of_parsed (Some n) = JNum n"

section \<open>models: the field validators\<close>

text \<open>
  Each validator is the truth value of what the JavaScript function returns: every call
  site negates the result or branches on it.
\<close>

definition carbone_data :: "jsval \<Rightarrow> bool" where
  "carbone_data v =
     (truthy v \<and> ((case v of JArr xs \<Rightarrow> length xs \<noteq> 0 | _ \<Rightarrow> False) \<or> isObject v))"

definition carbone_options :: "jsval \<Rightarrow> bool" where
  "carbone_options v = (if truthy v then isObject v else True)"

definition carbone_formatters :: "jsval \<Rightarrow> bool" where
  "carbone_formatters v = (if truthy v then isNonEmptyString v else True)"

definition carbone_convertTo :: "env \<Rightarrow> jsval \<Rightarrow> bool" where
  "carbone_convertTo E v =
     (if truthy v then
        isNonEmptyString v \<and>
        (case v of
           JStr s \<Rightarrow> toLowerCase s = ''pdf'' \<or> in_fileTypes E (toLowerCase s)
         | _ \<Rightarrow> False)
      else True)"

definition carbone_reportName :: "jsval \<Rightarrow> bool" where
  "carbone_reportName v = (if truthy v then isNonEmptyString v else True)"

definition models_template :: "jsval \<Rightarrow> bool" where
  "models_template v = (truthy v \<and> v \<noteq> JNull \<and> v \<noteq> JUndefined \<and> isObject v)"

definition templateContent_mandatory :: "jsval \<Rightarrow> bool" where
  "templateContent_mandatory v =
     (isNonEmptyString (get_prop v ''content'') \<and>
      isNonEmptyString (get_prop v ''encodingType'') \<and>
      isNonEmptyString (get_prop v ''fileType''))"

definition templateContent_content :: "jsval \<Rightarrow> bool" where
  "templateContent_content v = isNonEmptyString v"

definition templateContent_encodingType :: "jsval \<Rightarrow> bool" where
  "templateContent_encodingType v =
     (if truthy v then
        isNonEmptyString v \<and>
        (case v of JStr s \<Rightarrow> validator_isIn s [''base64'', ''binary'', ''hex''] | _ \<Rightarrow> False)
      else True)"

definition templateContent_fileType :: "env \<Rightarrow> jsval \<Rightarrow> bool" where
  "templateContent_fileType E v =
     (isNonEmptyString v \<and> (case v of JStr s \<Rightarrow> in_fileTypes E (toLowerCase s) | _ \<Rightarrow> False))"

subsection \<open>The size check and its temporary file\<close>

text \<open>
  The file system as the size check sees it: the temporary files that exist, by name,
  and the trace of the I/O operations performed. \<open>tmp.fileSync\<close> creates a file under a
  name not in use; \<open>removeCallback\<close> unlinks it. Which operation of a call fails, if any,
  is the \<open>fault\<close> argument. A file that was written has the length of the buffer.
\<close>

datatype io_event =
    TmpFileSync nat
  | WriteFile nat nat
  | StatSync nat
  | ConsoleLog
  | RemoveCallback nat

record world =
  tmp_files :: "nat list"
  io_trace :: "io_event list"

datatype fault = NoFault | FileSyncFault | WriteFault | StatFault

definition fresh_name :: "nat list \<Rightarrow> nat" where
  "fresh_name fs = Suc (foldr max fs 0)"

definition emit :: "io_event \<Rightarrow> world \<Rightarrow> world" where
  "emit e w = w\<lparr>io_trace := io_trace w @ [e]\<rparr>"

definition tmp_fileSync :: "world \<Rightarrow> nat \<times> world" where
  "tmp_fileSync w =
     (let f = fresh_name (tmp_files w)
      in (f, emit (TmpFileSync f) (w\<lparr>tmp_files := f # tmp_files w\<rparr>)))"

definition removeCallback :: "nat \<Rightarrow> world \<Rightarrow> world" where
  "removeCallback f w = emit (RemoveCallback f) (w\<lparr>tmp_files := removeAll f (tmp_files w)\<rparr>)"

text \<open>
  \<open>!attachmentLimit || isNaN(attachmentLimit) || attachmentLimit < 1\<close> and
  \<open>stats.size <= attachmentLimit\<close>, on what \<open>bytes.parse\<close> returns (\<open>null\<close> counts as
  \<open>0\<close> in a comparison, and no comparison with \<open>NaN\<close> holds).
\<close>

fun isNaN :: "jsnumber option \<Rightarrow> bool" where
  "isNaN (Some NaN) = True"
| "isNaN _ = False"

fun less_than_one :: "jsnumber option \<Rightarrow> bool" where
  "less_than_one None = True"
| "less_than_one (Some NaN) = False"
| "less_than_one (Some (Num x)) = (x < 1)"

fun size_le :: "nat \<Rightarrow> jsnumber option \<Rightarrow> bool" where
  "size_le n None = (n \<le> 0)"
| "size_le n (Some NaN) = False"
| "size_le n (Some (Num x)) = (of_nat n \<le> x)"

definition limit_rejected :: "jsnumber option \<Rightarrow> bool" where
  "limit_rejected attachmentLimit =
     (\<not> truthy (of_parsed attachmentLimit) \<or> isNaN attachmentLimit \<or> less_than_one attachmentLimit)"

text \<open>
  The \<open>try\<close> block: its completion (the value returned, or the exception raised), the
  variable \<open>tmpFile\<close> as the block leaves it, and the file system.
\<close>

definition size_try ::
  "env \<Rightarrow> fault \<Rightarrow> jsval \<Rightarrow> jsval \<Rightarrow> jsnumber option \<Rightarrow> world \<Rightarrow> (exn + bool) \<times> nat option \<times> world" where
  "size_try E io content encoding attachmentLimit w =
     (if io = FileSyncFault then (Inl (Error ''tmp.fileSync''), None, w)
      else
        let (tmpFile, w1) = tmp_fileSync w in
        if io = WriteFault then (Inl (Error ''writeFile''), Some tmpFile, w1)
        else
          let written = buffer_length E content encoding;
              w2 = emit (WriteFile tmpFile written) w1 in
          if io = StatFault then (Inl (Error ''statSync''), Some tmpFile, w2)
          else
            let w3 = emit (StatSync tmpFile) w2
            in (Inr (size_le written attachmentLimit), Some tmpFile, w3))"

definition templateContent_size ::
  "env \<Rightarrow> fault \<Rightarrow> jsval \<Rightarrow> jsval \<Rightarrow> jsval \<Rightarrow> world \<Rightarrow> bool \<times> world" where
  "templateContent_size E io content encoding limit w =
     (if \<not> (templateContent_content content \<and> templateContent_encodingType encoding)
      then (False, w)
      else
        let attachmentLimit = bytes_parse limit in
        if limit_rejected attachmentLimit then (False, w)
        else
          let (completion, tmpFile, w1) = size_try E io content encoding attachmentLimit w;
              (result, w2) =
                (case completion of
                   Inr b \<Rightarrow> (b, w1)
                 | Inl e \<Rightarrow> (False, emit ConsoleLog w1));
              w3 = (case tmpFile of Some f \<Rightarrow> removeCallback f w2 | None \<Rightarrow> w2)
          in (result, w3))"

subsection \<open>Conversion compatibility\<close>

text \<open>
  \<open>toLowerCase\<close> is a method of strings only: called on any other value that reaches
  it, the function raises a \<open>TypeError\<close>. A type missing from the table makes the
  conjunction \<open>undefined\<close>, which is false. A type that names an inherited property
  makes the left operand truthy, and the call of its \<open>includes\<close> raises a \<open>TypeError\<close>.
\<close>

definition templateContent_fileConversion :: "env \<Rightarrow> jsval \<Rightarrow> jsval \<Rightarrow> exn + bool" where
  "templateContent_fileConversion E contentFileType outputFileType =
     (if loose_eq_empty contentFileType then Inr False
      else if truthy contentFileType \<and> truthy outputFileType then
        (case contentFileType of
           JStr c \<Rightarrow>
             (case fileTypes_get E (toLowerCase c) of
                None \<Rightarrow> Inr False
              | Some entry \<Rightarrow>
                  (case outputFileType of
                     JStr out \<Rightarrow>
                       (case entry of
                          Targets targets \<Rightarrow> Inr (toLowerCase out \<in> set targets)
                        | PrototypeMember \<Rightarrow> Inl TypeError)
                   | _ \<Rightarrow> Inl TypeError))
         | _ \<Rightarrow> Inl TypeError)
      else Inr True)"

section \<open>modelValidation: the composite validators\<close>

text \<open>An entry of the error list: \<open>{ value, message }\<close>, \<open>{ message }\<close> or \<open>{ values, message }\<close>.\<close>

record violation =
  val :: "jsval option"
  vals :: "jsval list option"
  message :: string

definition backquoted :: "string \<Rightarrow> string" where
  "backquoted s = [CHR 0x60] @ s @ [CHR 0x60]"

definition invalid_value :: "jsval \<Rightarrow> string \<Rightarrow> violation" where
  "invalid_value v name =
     \<lparr>val = Some v, vals = None, message = ''Invalid value '' @ backquoted name @ ''.''\<rparr>"

definition formatters_unparsed :: "jsval \<Rightarrow> violation" where
  "formatters_unparsed v =
     \<lparr>val = Some v, vals = None,
      message = ''Formatters could not be parsed into formatters object. See 'https://www.npmjs.com/package/telejson'.''\<rparr>"

definition mandatory_missing :: violation where
  "mandatory_missing =
     \<lparr>val = None, vals = None,
      message = ''Invalid template. Mandatory fields missing. Require content, encodingType and fileType.''\<rparr>"

definition too_large :: "env \<Rightarrow> jsval \<Rightarrow> violation" where
  "too_large E limit =
     \<lparr>val = Some (JStr ''Template document too large''), vals = None,
      message = ''Template exceeds size limit of '' @ bytes_format E limit @ ''.''\<rparr>"

definition unsupported_conversion :: "jsval \<Rightarrow> jsval \<Rightarrow> violation" where
  "unsupported_conversion fileType outputFileType =
     \<lparr>val = None, vals = Some [fileType, outputFileType],
      message = ''Unsupported file type conversion. A dictionary of supported input and output file types can be found at API endpoint '/fileTypes'' @ [CHR 0x27]\<rparr>"

definition modelValidation_carbone :: "env \<Rightarrow> obj \<Rightarrow> violation list" where
  "modelValidation_carbone E obj =
     (let errors = [];
          errors =
            (if \<not> carbone_data (field obj ''data'')
             then errors @ [invalid_value (field obj ''data'') ''data'']
             else errors);
          errors =
            (if \<not> carbone_options (field obj ''options'')
             then errors @ [invalid_value (field obj ''options'') ''options'']
             else if truthy (field obj ''options'') then
               (let errors =
                      (if \<not> carbone_convertTo E (get_prop (field obj ''options'') ''convertTo'')
                       then errors @ [invalid_value (get_prop (field obj ''options'') ''convertTo'')
                                        ''options.convertTo'']
                       else errors);
                    errors =
                      (if \<not> carbone_reportName (get_prop (field obj ''options'') ''reportName'')
                       then errors @ [invalid_value (get_prop (field obj ''options'') ''reportName'')
                                        ''options.reportName'']
                       else errors)
                in errors)
             else errors);
          errors =
            (if \<not> carbone_formatters (field obj ''formatters'')
             then errors @ [invalid_value (field obj ''formatters'') ''formatters'']
             else if truthy (field obj ''formatters'') then
               (if telejson_throws E (field obj ''formatters'')
                then errors @ [formatters_unparsed (field obj ''formatters'')]
                else errors)
             else errors)
      in errors)"

text \<open>
  The template validator. It returns the error list, or the exception that the
  conversion check raised, and the file system as the size check left it.
\<close>

definition modelValidation_template ::
  "env \<Rightarrow> fault \<Rightarrow> obj \<Rightarrow> jsval \<Rightarrow> world \<Rightarrow> (exn + violation list) \<times> world" where
  "modelValidation_template E io obj limit w =
     (let errors = modelValidation_carbone E obj in
      if length errors = 0 then
        (let template = field obj ''template'';
             errors =
               (if \<not> models_template template
                then errors @ [invalid_value template ''template'']
                else errors)
         in
           if length errors = 0 then
             (if \<not> templateContent_mandatory template
              then (Inr (errors @ [mandatory_missing]), w)
              else
                (let validateSize = True;
                     (errors, validateSize) =
                       (if \<not> templateContent_fileType E (get_prop template ''fileType'')
                        then (errors @ [invalid_value (get_prop template ''fileType'')
                                          ''template.fileType''], False)
                        else (errors, validateSize));
                     (errors, validateSize) =
                       (if \<not> templateContent_content (get_prop template ''content'')
                        then (errors @ [invalid_value (get_prop template ''content'')
                                          ''template.content''], False)
                        else (errors, validateSize));
                     (errors, validateSize) =
                       (if \<not> templateContent_encodingType (get_prop template ''encodingType'')
                        then (errors @ [invalid_value (get_prop template ''encodingType'')
                                          ''template.encodingType''], False)
                        else (errors, validateSize));
                     (errors, w) =
                       (if validateSize then
                          (let (validSize, w) =
                                 templateContent_size E io (get_prop template ''content'')
                                   (get_prop template ''encodingType'') limit w
                           in (if \<not> validSize then errors @ [too_large E limit] else errors, w))
                        else (errors, w));
                     outputFileType =
                       (if truthy (js_and (field obj ''options'')
                                     (get_prop (field obj ''options'') ''convertTo''))
                        then get_prop (field obj ''options'') ''convertTo''
                        else JStr ''pdf'')
                 in
                   (case templateContent_fileConversion E (get_prop template ''fileType'')
                           outputFileType of
                      Inl e \<Rightarrow> (Inl e, w)
                    | Inr validConversion \<Rightarrow>
                        (Inr (if \<not> validConversion
                              then errors @ [unsupported_conversion (get_prop template ''fileType'')
                                               outputFileType]
                              else errors), w))))
           else (Inr errors, w))
      else (Inr errors, w))"

section \<open>The middleware\<close>

text \<open>
  What a request handler does to the response: the problem documents sent, and the
  number of times the next stage was called. The error list may be absent.
\<close>

datatype problem = Problem (problem_status: nat) (problem_detail: string) (problem_errors: "violation list")

record http =
  sent :: "problem list"
  next_calls :: nat

definition handleValidationErrors :: "http \<Rightarrow> violation list option \<Rightarrow> http" where
  "handleValidationErrors res errors =
     (case errors of
        Some es \<Rightarrow>
          if length es \<noteq> 0
          then res\<lparr>sent := sent res @ [Problem 422 ''Validation failed'' es]\<rparr>
          else res\<lparr>next_calls := Suc (next_calls res)\<rparr>
      | None \<Rightarrow> res\<lparr>next_calls := Suc (next_calls res)\<rparr>)"

subsection \<open>init and the handlers\<close>

text \<open>
  \<open>maxFileSize\<close> is a variable of the module: \<open>init\<close> returns its completion and the
  new value of the variable. The \<open>try\<close> block holds one call of \<open>bytes.parse\<close>, which
  has no raising path, so the block always completes normally.
\<close>

definition try_bytes_parse :: "jsval \<Rightarrow> exn + jsnumber option" where
  "try_bytes_parse v = Inr (bytes_parse v)"

definition maxFileSize_initial :: jsval where
  "maxFileSize_initial = of_parsed (bytes_parse (JStr ''25MB''))"

definition init :: "jsval \<Rightarrow> jsval \<Rightarrow> (exn + unit) \<times> jsval" where
  "init options FILE_UPLOADS_MAX_FILE_SIZE =
     (let maxFileSize =
            js_or (js_or (js_and options
                            (js_or (get_prop options ''maxFileSize'')
                                   (get_prop options ''max-file-size'')))
                         FILE_UPLOADS_MAX_FILE_SIZE)
                  (JStr ''25MB'')
      in case try_bytes_parse maxFileSize of
           Inr parsed \<Rightarrow> (Inr (), of_parsed parsed)
         | Inl e \<Rightarrow>
             (Inl (Error ''Could not determine max file size (bytes) for file uploads.''),
              maxFileSize))"

definition validateCarbone :: "env \<Rightarrow> obj \<Rightarrow> http \<Rightarrow> http" where
  "validateCarbone E body res = handleValidationErrors res (Some (modelValidation_carbone E body))"

definition validateTemplate ::
  "env \<Rightarrow> fault \<Rightarrow> jsval \<Rightarrow> obj \<Rightarrow> http \<Rightarrow> world \<Rightarrow> (exn + unit) \<times> http \<times> world" where
  "validateTemplate E io maxFileSize body res w =
     (case modelValidation_template E io body maxFileSize w of
        (Inl e, w') \<Rightarrow> (Inl e, res, w')
      | (Inr errors, w') \<Rightarrow> (Inr (), handleValidationErrors res (Some errors), w'))"

section \<open>Vocabulary of the properties\<close>

text \<open>
  An entry is about a field when its message names the field; the second message of
  \<open>formatters\<close> (the string does not deserialize) counts for \<open>formatters\<close>.
\<close>

definition about :: "string \<Rightarrow> violation \<Rightarrow> bool" where
  "about name e =
     (message e = ''Invalid value '' @ backquoted name @ ''.'' \<or>
      (name = ''formatters'' \<and> message e = message (formatters_unparsed JUndefined)))"

definition carbone_fields :: "string list" where
  "carbone_fields =
     [''data'', ''options'', ''options.convertTo'', ''options.reportName'', ''formatters'']"


fun conversion_listed :: "env \<Rightarrow> jsval \<Rightarrow> jsval \<Rightarrow> bool" where
  "conversion_listed E (JStr c) (JStr d) =
     (case fileTypes E (toLowerCase c) of
        None \<Rightarrow> False
      | Some targets \<Rightarrow> toLowerCase d \<in> set targets)"
| "conversion_listed E _ _ = False"

text \<open>
  A value reaches the prototype when it is a string whose lower-case form is not an own
  key of the table but names a property the table inherits.
\<close>

definition own_key :: "env \<Rightarrow> string \<Rightarrow> bool" where
  "own_key E k = (fileTypes E k \<noteq> None)"

fun reaches_prototype :: "env \<Rightarrow> jsval \<Rightarrow> bool" where
  "reaches_prototype E (JStr s) =
     (\<not> own_key E (toLowerCase s) \<and> toLowerCase s \<in> set object_prototype_names)"
| "reaches_prototype E _ = False"

text \<open>
  The parts of the template validator's result, in the words of its description: the
  failures of the three independent field checks (in the order \<open>fileType\<close>, \<open>content\<close>,
  \<open>encodingType\<close>), the output type the conversion check uses, and the failure of the
  conversion check.
\<close>

definition field_failures :: "env \<Rightarrow> jsval \<Rightarrow> violation list" where
  "field_failures E template =
     (if templateContent_fileType E (get_prop template ''fileType'') then []
      else [invalid_value (get_prop template ''fileType'') ''template.fileType'']) @
     (if templateContent_content (get_prop template ''content'') then []
      else [invalid_value (get_prop template ''content'') ''template.content'']) @
     (if templateContent_encodingType (get_prop template ''encodingType'') then []
      else [invalid_value (get_prop template ''encodingType'') ''template.encodingType''])"

definition selected_output :: "obj \<Rightarrow> jsval" where
  "selected_output obj =
     (if truthy (field obj ''options'') \<and> truthy (get_prop (field obj ''options'') ''convertTo'')
      then get_prop (field obj ''options'') ''convertTo''
      else JStr ''pdf'')"

definition conversion_failures :: "env \<Rightarrow> obj \<Rightarrow> violation list" where
  "conversion_failures E obj =
     (if templateContent_fileConversion E (get_prop (field obj ''template'') ''fileType'')
           (selected_output obj) = Inr True
      then []
      else [unsupported_conversion (get_prop (field obj ''template'') ''fileType'')
              (selected_output obj)])"

section \<open>Concrete inputs\<close>

text \<open>
  A small environment: \<open>docx\<close> converts to \<open>docx\<close> and \<open>pdf\<close>, \<open>txt\<close> to \<open>txt\<close> only; the
  formatter string \<open>{\<close> does not deserialize; a buffer holds three bytes for every four
  characters of content.
\<close>

definition demo_env :: env where
  "demo_env =
     \<lparr>fileTypes = map_of [(''docx'', [''docx'', ''pdf'']), (''txt'', [''txt''])],
      telejson_throws = (\<lambda>v. v = JStr ''{''),
      bytes_format = (\<lambda>v. case v of JNull \<Rightarrow> ''null'' | _ \<Rightarrow> ''1KB''),
      buffer_length = (\<lambda>c e. case c of JStr s \<Rightarrow> (length s * 3) div 4 | _ \<Rightarrow> 0)\<rparr>"

definition world0 :: world where
  "world0 = \<lparr>tmp_files = [], io_trace = []\<rparr>"

text \<open>
  The request body \<open>{data: {a: 1}, template: {content: "", encodingType: "base64",
  fileType: "docx"}}\<close>.
\<close>

definition scenario_body :: obj where
  "scenario_body =
     [(''data'', JObj [(''a'', JNum (Num 1))]),
      (''template'', JObj [(''content'', JStr ''''), (''encodingType'', JStr ''base64''),
                           (''fileType'', JStr ''docx'')])]"

text \<open>
  A well-formed upload of three bytes, \<open>{data: {a: 1}, template: {content: "QUJD",
  encodingType: "base64", fileType: "docx"}}\<close>, and bodies that fail at each stage: no
  \<open>data\<close>; no \<open>template\<close>; an unknown \<open>fileType\<close> and \<open>encodingType\<close>.
\<close>

definition valid_upload :: obj where
  "valid_upload =
     [(''data'', JObj [(''a'', JNum (Num 1))]),
      (''template'', JObj [(''content'', JStr ''QUJD''), (''encodingType'', JStr ''base64''),
                           (''fileType'', JStr ''docx'')])]"

definition upload_without_data :: obj where
  "upload_without_data =
     [(''template'', JObj [(''content'', JStr ''QUJD''), (''encodingType'', JStr ''base64''),
                           (''fileType'', JStr ''docx'')])]"

definition upload_without_template :: obj where
  "upload_without_template = [(''data'', JObj [(''a'', JNum (Num 1))])]"

definition upload_bad_fields :: obj where
  "upload_bad_fields =
     [(''data'', JObj [(''a'', JNum (Num 1))]),
      (''template'', JObj [(''content'', JStr ''QUJD''), (''encodingType'', JStr ''rot13''),
                           (''fileType'', JStr ''exe'')])]"

text \<open>
  The well-formed upload with the file type \<open>constructor\<close>, and the request options
  \<open>{convertTo: ""}\<close>, \<open>{convertTo: 0}\<close> and \<open>{convertTo: "constructor"}\<close>.
\<close>

definition upload_constructor :: obj where
  "upload_constructor =
     [(''data'', JObj [(''a'', JNum (Num 1))]),
      (''template'', JObj [(''content'', JStr ''QUJD''), (''encodingType'', JStr ''base64''),
                           (''fileType'', JStr ''constructor'')])]"

definition request_with_convertTo :: "jsval \<Rightarrow> obj" where
  "request_with_convertTo v =
     [(''data'', JObj [(''a'', JNum (Num 1))]), (''options'', JObj [(''convertTo'', v)])]"

section \<open>Auxiliary facts\<close>

subsection \<open>Strings\<close>

lemma validator_isEmpty_iff: "validator_isEmpty s \<longleftrightarrow> (\<forall>c \<in> set s. isWhiteSpace c)"
proof
  assume "validator_isEmpty s"
  then have all: "\<forall>x \<in> set (dropWhile isWhiteSpace s). isWhiteSpace x"
    by (simp add: validator_isEmpty_def trim_def)
  have "dropWhile isWhiteSpace s = []"
  proof (cases "dropWhile isWhiteSpace s")
    case Nil
    then show ?thesis .
  next
    case (Cons y ys)
    then have "\<not> isWhiteSpace y" by (simp add: dropWhile_eq_Cons_conv)
    moreover from all Cons have "isWhiteSpace y" by simp
    ultimately show ?thesis by simp
  qed
  then show "\<forall>c \<in> set s. isWhiteSpace c" by simp
next
  assume "\<forall>c \<in> set s. isWhiteSpace c"
  then have d: "dropWhile isWhiteSpace s = []" by simp
  show "validator_isEmpty s" unfolding validator_isEmpty_def trim_def d by simp
qed

lemma toLowerChar_whitespace: "isWhiteSpace c \<Longrightarrow> toLowerChar c = c"
  by (auto simp: isWhiteSpace_def toLowerChar_def Let_def)

lemma toLowerCase_blank: "validator_isEmpty s \<Longrightarrow> toLowerCase s = s"
  by (simp add: validator_isEmpty_iff toLowerCase_def toLowerChar_whitespace map_idI)

lemma pdf_not_blank: "\<not> validator_isEmpty ''pdf''"
  by (simp add: validator_isEmpty_def trim_def isWhiteSpace_def)

lemma isNonEmptyString_JStr: "isNonEmptyString v \<Longrightarrow> \<exists>s. v = JStr s \<and> s \<noteq> []"
  by (cases v) (auto simp: validator_isEmpty_def trim_def)

text \<open>What evaluates the validators on the concrete inputs.\<close>

lemmas eval_defs =
  field_def demo_env_def in_fileTypes_def fileTypes_get_def object_prototype_names_def
  own_key_def validator_isEmpty_def trim_def isWhiteSpace_def
  validator_isIn_def toLowerCase_def toLowerChar_def
  carbone_data_def carbone_options_def carbone_formatters_def carbone_convertTo_def
  carbone_reportName_def models_template_def templateContent_mandatory_def
  templateContent_content_def templateContent_encodingType_def templateContent_fileType_def

subsection \<open>bytes.parse on the strings used below\<close>

declare bytes_parse.simps (2) [simp del]

lemma bytes_parse_25MB: "bytes_parse (JStr ''25MB'') = Some (Num 26214400)"
  by (simp add: bytes_parse.simps parseRegExp_exec_def isDigit_def digitsVal_def toLowerCase_def toLowerChar_def
      unit_map_def)

lemma bytes_parse_1kb: "bytes_parse (JStr ''1kb'') = Some (Num 1024)"
  by (simp add: bytes_parse.simps parseRegExp_exec_def isDigit_def digitsVal_def toLowerCase_def toLowerChar_def
      unit_map_def)

lemma bytes_parse_abc: "bytes_parse (JStr ''abc'') = None"
  by (simp add: bytes_parse.simps parseRegExp_exec_def parseInt10_def isDigit_def isWhiteSpace_def)

lemma limit_rejected_iff:
  "limit_rejected p \<longleftrightarrow> \<not> (\<exists>x. p = Some (Num x) \<and> 1 \<le> x)"
proof (cases p)
  case None
  then show ?thesis by (simp add: limit_rejected_def)
next
  case (Some n)
  then show ?thesis by (cases n) (auto simp: limit_rejected_def)
qed

subsection \<open>The base validator, segment by segment\<close>

lemma carbone_segments:
  "modelValidation_carbone E obj =
     (if \<not> carbone_data (field obj ''data'') then [invalid_value (field obj ''data'') ''data''] else []) @
     (if \<not> carbone_options (field obj ''options'') then [invalid_value (field obj ''options'') ''options'']
      else if truthy (field obj ''options'') then
        (if \<not> carbone_convertTo E (get_prop (field obj ''options'') ''convertTo'')
         then [invalid_value (get_prop (field obj ''options'') ''convertTo'') ''options.convertTo''] else []) @
        (if \<not> carbone_reportName (get_prop (field obj ''options'') ''reportName'')
         then [invalid_value (get_prop (field obj ''options'') ''reportName'') ''options.reportName''] else [])
      else []) @
     (if \<not> carbone_formatters (field obj ''formatters'') then [invalid_value (field obj ''formatters'') ''formatters'']
      else if truthy (field obj ''formatters'') \<and> telejson_throws E (field obj ''formatters'')
      then [formatters_unparsed (field obj ''formatters'')] else [])"
  unfolding modelValidation_carbone_def Let_def by simp

lemma about_invalid_value [simp]:
  "about name (invalid_value v name') = (name = name')"
  by (auto simp: about_def invalid_value_def backquoted_def formatters_unparsed_def)

lemma about_formatters_unparsed [simp]:
  "about name (formatters_unparsed v) = (name = ''formatters'')"
  by (auto simp: about_def invalid_value_def backquoted_def formatters_unparsed_def)

lemma message_nonempty [simp]:
  "message (invalid_value v name) \<noteq> []" "message (formatters_unparsed v) \<noteq> []"
  by (simp_all add: invalid_value_def formatters_unparsed_def)

lemma filter_if: "filter P (if c then xs else ys) = (if c then filter P xs else filter P ys)"
  by simp

lemma in_fileTypes_iff:
  "in_fileTypes E (toLowerCase s) \<longleftrightarrow> own_key E (toLowerCase s) \<or> reaches_prototype E (JStr s)"
  by (auto simp: in_fileTypes_def fileTypes_get_def own_key_def split: option.splits)

lemma convertTo_rejects:
  assumes "truthy v" and "\<not> reaches_prototype E v"
    and "\<not> (\<exists>s. v = JStr s \<and> (toLowerCase s = ''pdf'' \<or> own_key E (toLowerCase s)))"
  shows "\<not> carbone_convertTo E v"
  using assms by (cases v) (auto simp: carbone_convertTo_def in_fileTypes_iff)

lemma convertTo_accepts:
  assumes keys: "\<forall>k. own_key E k \<longrightarrow> \<not> validator_isEmpty k"
    and ok: "toLowerCase s = ''pdf'' \<or> own_key E (toLowerCase s)"
  shows "carbone_convertTo E (JStr s)"
proof -
  have "\<not> validator_isEmpty s"
  proof
    assume b: "validator_isEmpty s"
    then have "toLowerCase s = s" by (rule toLowerCase_blank)
    with ok keys pdf_not_blank b show False by auto
  qed
  with ok show ?thesis by (auto simp: carbone_convertTo_def in_fileTypes_iff)
qed

text \<open>A falsy \<open>convertTo\<close> (the empty string, \<open>0\<close>, \<open>false\<close>, \<open>null\<close>) is not examined.\<close>

lemma convertTo_falsy_accepted: "\<not> truthy v \<Longrightarrow> carbone_convertTo E v"
  by (simp add: carbone_convertTo_def)

lemma carbone_empty_convertTo:
  assumes "modelValidation_carbone E obj = []" and "truthy (field obj ''options'')"
  shows "carbone_convertTo E (get_prop (field obj ''options'') ''convertTo'')"
  using assms unfolding carbone_segments by (simp split: if_splits)

lemma carbone_scenario: "modelValidation_carbone E scenario_body = []"
  by (simp add: carbone_segments scenario_body_def field_def carbone_data_def
      carbone_options_def carbone_formatters_def)

lemma carbone_valid_upload: "modelValidation_carbone E valid_upload = []"
  by (simp add: carbone_segments valid_upload_def field_def carbone_data_def
      carbone_options_def carbone_formatters_def)

subsection \<open>The size check\<close>

lemma fresh_name_bound: "(x::nat) \<in> set fs \<Longrightarrow> x \<le> foldr max fs 0"
  by (induction fs) (auto simp: max_def)

lemma fresh_name_notin: "fresh_name fs \<notin> set fs"
  using fresh_name_bound [of "fresh_name fs" fs] by (auto simp: fresh_name_def)

lemma removeAll_fresh: "removeAll (fresh_name fs) fs = fs"
  using fresh_name_notin [of fs] by simp

lemma size_rejects:
  assumes "\<not> templateContent_content c \<or> \<not> templateContent_encodingType e \<or>
           \<not> (\<exists>x. bytes_parse l = Some (Num x) \<and> 1 \<le> x)"
  shows "templateContent_size E io c e l w = (False, w)"
  using assms by (auto simp: templateContent_size_def limit_rejected_iff Let_def)

lemma size_measures:
  assumes "templateContent_content c" and "templateContent_encodingType e"
    and "bytes_parse l = Some (Num x)" and "1 \<le> x"
  shows "templateContent_size E NoFault c e l w =
           (of_nat (buffer_length E c e) \<le> x,
            w\<lparr>io_trace := io_trace w @
                 [TmpFileSync (fresh_name (tmp_files w)),
                  WriteFile (fresh_name (tmp_files w)) (buffer_length E c e),
                  StatSync (fresh_name (tmp_files w)),
                  RemoveCallback (fresh_name (tmp_files w))]\<rparr>)"
proof -
  have "\<not> limit_rejected (bytes_parse l)"
    using assms by (simp add: limit_rejected_iff)
  then show ?thesis
    using assms
    by (simp add: templateContent_size_def size_try_def tmp_fileSync_def emit_def
        removeCallback_def removeAll_fresh Let_def)
qed

text \<open>An I/O fault makes the check fail; it does not escape as an exception.\<close>

lemma size_fault_fails: "io \<noteq> NoFault \<Longrightarrow> fst (templateContent_size E io c e l w) = False"
  by (cases io)
     (simp_all add: templateContent_size_def size_try_def tmp_fileSync_def Let_def split_def)

subsection \<open>The conversion check inside the template validator\<close>

lemma convertTo_truthy_JStr:
  "carbone_convertTo E v \<Longrightarrow> truthy v \<Longrightarrow> \<exists>s. v = JStr s \<and> s \<noteq> []"
  by (simp add: carbone_convertTo_def isNonEmptyString_JStr)

lemma selected_output_JStr:
  assumes "modelValidation_carbone E obj = []"
  shows "\<exists>d. selected_output obj = JStr d \<and> d \<noteq> []"
proof (cases "truthy (field obj ''options'') \<and> truthy (get_prop (field obj ''options'') ''convertTo'')")
  case True
  then show ?thesis
    using carbone_empty_convertTo [OF assms] convertTo_truthy_JStr
    by (simp add: selected_output_def)
next
  case False
  then show ?thesis by (auto simp: selected_output_def)
qed

lemma fileConversion_strings:
  "c \<noteq> [] \<Longrightarrow> d \<noteq> [] \<Longrightarrow>
   templateContent_fileConversion E (JStr c) (JStr d) =
     (if reaches_prototype E (JStr c) then Inl TypeError
      else Inr (conversion_listed E (JStr c) (JStr d)))"
  by (auto simp: templateContent_fileConversion_def fileTypes_get_def own_key_def
      split: option.splits)

text \<open>
  Past the base check and the mandatory-fields check both arguments of the conversion
  check are non-empty strings: it raises exactly when the file type reaches the
  prototype, and otherwise returns what the table lists.
\<close>

lemma conversion_outcome:
  assumes "modelValidation_carbone E obj = []"
    and "templateContent_mandatory (field obj ''template'')"
  shows "templateContent_fileConversion E (get_prop (field obj ''template'') ''fileType'')
            (selected_output obj) =
         (if reaches_prototype E (get_prop (field obj ''template'') ''fileType'')
          then Inl TypeError
          else Inr (conversion_listed E (get_prop (field obj ''template'') ''fileType'')
                      (selected_output obj)))"
proof -
  from assms(2) have "isNonEmptyString (get_prop (field obj ''template'') ''fileType'')"
    by (simp add: templateContent_mandatory_def)
  then obtain c where c: "get_prop (field obj ''template'') ''fileType'' = JStr c" "c \<noteq> []"
    using isNonEmptyString_JStr by blast
  obtain d where d: "selected_output obj = JStr d" "d \<noteq> []"
    using selected_output_JStr [OF assms(1)] by blast
  show ?thesis
    unfolding c d using c(2) d(2) by (rule fileConversion_strings)
qed

lemma template_after_mandatory:
  assumes base: "modelValidation_carbone E obj = []"
    and tpl: "models_template (field obj ''template'')"
    and mand: "templateContent_mandatory (field obj ''template'')"
  shows "modelValidation_template E io obj limit w =
     (if reaches_prototype E (get_prop (field obj ''template'') ''fileType'')
      then Inl TypeError
      else Inr (field_failures E (field obj ''template'') @
           (if field_failures E (field obj ''template'') = [] \<and>
               \<not> fst (templateContent_size E io (get_prop (field obj ''template'') ''content'')
                        (get_prop (field obj ''template'') ''encodingType'') limit w)
            then [too_large E limit] else []) @
           conversion_failures E obj),
      if field_failures E (field obj ''template'') = []
      then snd (templateContent_size E io (get_prop (field obj ''template'') ''content'')
                 (get_prop (field obj ''template'') ''encodingType'') limit w)
      else w)"
proof -
  note b = conversion_outcome [OF base mand]
  have out: "(if truthy (js_and (field obj ''options'') (get_prop (field obj ''options'') ''convertTo''))
              then get_prop (field obj ''options'') ''convertTo'' else JStr ''pdf'') = selected_output obj"
    by (simp add: selected_output_def js_and_def)
  show ?thesis
    unfolding modelValidation_template_def Let_def out
    by (cases "reaches_prototype E (get_prop (field obj ''template'') ''fileType'')";
        cases "templateContent_fileType E (get_prop (field obj ''template'') ''fileType'')";
        cases "templateContent_content (get_prop (field obj ''template'') ''content'')";
        cases "templateContent_encodingType (get_prop (field obj ''template'') ''encodingType'')")
       (simp_all add: base tpl mand b field_failures_def conversion_failures_def split_def)
qed

text \<open>
  The template validator returns an error list on every request body whose file type
  does not reach the prototype.
\<close>

lemma template_returns:
  assumes "\<not> reaches_prototype E (get_prop (field obj ''template'') ''fileType'')"
  shows "\<exists>errors. fst (modelValidation_template E io obj limit w) = Inr errors"
proof (cases "modelValidation_carbone E obj = [] \<and> models_template (field obj ''template'') \<and>
    templateContent_mandatory (field obj ''template'')")
  case True
  then show ?thesis using assms by (simp add: template_after_mandatory)
next
  case False
  then show ?thesis by (auto simp: modelValidation_template_def Let_def)
qed


subsection \<open>The well-formed upload\<close>

lemma valid_upload_facts:
  "models_template (field valid_upload ''template'')"
  "templateContent_mandatory (field valid_upload ''template'')"
  "field_failures demo_env (field valid_upload ''template'') = []"
  "conversion_failures demo_env valid_upload = []"
  "get_prop (field valid_upload ''template'') ''content'' = JStr ''QUJD''"
  "get_prop (field valid_upload ''template'') ''encodingType'' = JStr ''base64''"
  "\<not> reaches_prototype demo_env (get_prop (field valid_upload ''template'') ''fileType'')"
  by (simp_all add: valid_upload_def eval_defs field_failures_def conversion_failures_def
      selected_output_def templateContent_fileConversion_def)

lemma valid_upload_result:
  "modelValidation_template demo_env io valid_upload limit w =
     (Inr (if fst (templateContent_size demo_env io (JStr ''QUJD'') (JStr ''base64'') limit w)
           then [] else [too_large demo_env limit]),
      snd (templateContent_size demo_env io (JStr ''QUJD'') (JStr ''base64'') limit w))"
  by (simp add: template_after_mandatory carbone_valid_upload valid_upload_facts)

lemma valid_upload_checks:
  "templateContent_content (JStr ''QUJD'')"
  "templateContent_encodingType (JStr ''base64'')"
  "buffer_length demo_env (JStr ''QUJD'') (JStr ''base64'') = 3"
  by (simp_all add: eval_defs)

lemma world0_sel: "tmp_files world0 = []" "io_trace world0 = []" "fresh_name (tmp_files world0) = 1"
  by (simp_all add: world0_def fresh_name_def)

section \<open>Properties of the middleware adapter\<close>

text \<open>
  Claim C7. Handed an absent or empty error list, \<open>handleValidationErrors\<close> calls the next
  stage once and sends nothing; handed a non-empty list it sends exactly one problem
  document, with status 422, the detail "Validation failed" and the whole list, and does
  not call the next stage.
\<close>

theorem handleValidationErrors_adapter:
  "handleValidationErrors res None = res\<lparr>next_calls := Suc (next_calls res)\<rparr> \<and>
   handleValidationErrors res (Some []) = res\<lparr>next_calls := Suc (next_calls res)\<rparr> \<and>
   handleValidationErrors res (Some (e # es)) =
     res\<lparr>sent := sent res @ [Problem 422 ''Validation failed'' (e # es)]\<rparr>"
  by (simp add: handleValidationErrors_def)

section \<open>Properties of the field validators\<close>

text \<open>
  Claim C9. The \<open>encodingType\<close> validator accepts every falsy value (\<open>undefined\<close>, \<open>null\<close>,
  the empty string among them); a value it rejects is truthy and is none of \<open>base64\<close>,
  \<open>binary\<close>, \<open>hex\<close>; and a template whose \<open>encodingType\<close> is falsy is rejected by the
  mandatory-fields check.
\<close>

theorem encodingType_vacuous:
  "(\<not> truthy v \<longrightarrow> templateContent_encodingType v) \<and>
   (\<not> templateContent_encodingType v \<longrightarrow>
      truthy v \<and> v \<notin> {JStr ''base64'', JStr ''binary'', JStr ''hex''}) \<and>
   (\<not> truthy (get_prop t ''encodingType'') \<longrightarrow> \<not> templateContent_mandatory t)"
proof (intro conjI impI)
  assume "\<not> truthy v"
  then show "templateContent_encodingType v"
    by (simp add: templateContent_encodingType_def)
next
  assume "\<not> templateContent_encodingType v"
  then show "truthy v"
    by (simp add: templateContent_encodingType_def split: if_splits)
next
  assume r: "\<not> templateContent_encodingType v"
  show "v \<notin> {JStr ''base64'', JStr ''binary'', JStr ''hex''}"
  proof
    assume "v \<in> {JStr ''base64'', JStr ''binary'', JStr ''hex''}"
    then have "templateContent_encodingType v"
      by (auto simp: templateContent_encodingType_def validator_isIn_def validator_isEmpty_def
          trim_def isWhiteSpace_def)
    with r show False by simp
  qed
next
  assume "\<not> truthy (get_prop t ''encodingType'')"
  then have "\<not> isNonEmptyString (get_prop t ''encodingType'')"
    by (cases "get_prop t ''encodingType''") (simp_all add: validator_isEmpty_def trim_def)
  then show "\<not> templateContent_mandatory t"
    by (simp add: templateContent_mandatory_def)
qed

theorem encodingType_vacuous_witness:
  "templateContent_encodingType JUndefined \<and> templateContent_encodingType JNull \<and>
   templateContent_encodingType (JStr '''') \<and>
   \<not> templateContent_mandatory
       (JObj [(''content'', JStr ''QQ==''), (''encodingType'', JStr ''''), (''fileType'', JStr ''docx'')])"
  using encodingType_vacuous [of JUndefined "JObj []"] encodingType_vacuous [of JNull "JObj []"]
    encodingType_vacuous [of "JStr ''''"
      "JObj [(''content'', JStr ''QQ==''), (''encodingType'', JStr ''''), (''fileType'', JStr ''docx'')]"]
  by (simp add: field_def)


text \<open>
  For the input types \<open>constructor\<close> and \<open>__proto__\<close> the table object yields an inherited
  member, whose \<open>includes\<close> cannot be called: the function raises.
\<close>

lemma fileConversion_constructor:
  "templateContent_fileConversion demo_env (JStr ''constructor'') (JStr ''pdf'') = Inl TypeError"
  "templateContent_fileConversion demo_env (JStr ''__proto__'') (JStr ''pdf'') = Inl TypeError"
  by (simp_all add: templateContent_fileConversion_def eval_defs)



section \<open>Properties of the base validator\<close>

text \<open>
  Claim C10. On every request body the base validator's list has at most one entry about
  each of \<open>data\<close>, \<open>options\<close>, \<open>options.convertTo\<close>, \<open>options.reportName\<close> and
  \<open>formatters\<close>, has at most four entries, and every entry has a non-empty message.
\<close>

theorem carbone_error_list_bounded:
  "length (modelValidation_carbone E obj) \<le> 4 \<and>
   list_all (\<lambda>e. message e \<noteq> []) (modelValidation_carbone E obj) \<and>
   list_all (\<lambda>name. length (filter (about name) (modelValidation_carbone E obj)) \<le> 1)
     carbone_fields"
proof (intro conjI)
  show "length (modelValidation_carbone E obj) \<le> 4"
    unfolding carbone_segments by simp
  show "list_all (\<lambda>e. message e \<noteq> []) (modelValidation_carbone E obj)"
    unfolding carbone_segments by simp
  show "list_all (\<lambda>name. length (filter (about name) (modelValidation_carbone E obj)) \<le> 1)
     carbone_fields"
    unfolding carbone_segments carbone_fields_def by (simp add: filter_if cong: if_cong)
qed

text \<open>The bound of four entries is reached.\<close>

lemma carbone_bound_reached:
  "length (modelValidation_carbone demo_env
     [(''data'', JArr []),
      (''options'', JObj [(''convertTo'', JStr ''exe''), (''reportName'', JNum (Num 7))]),
      (''formatters'', JStr ''{'')]) = 4"
  unfolding carbone_segments by (simp add: eval_defs)

text \<open>
  Claim C6 as stated fails for a \<open>convertTo\<close> that is present but falsy: with the options
  \<open>{convertTo: 0}\<close> or \<open>{convertTo: ""}\<close> the value is neither \<open>pdf\<close> nor a key of the
  table, and the validator, which examines truthy values only, records nothing.
\<close>

theorem convertTo_counterexample:
  "modelValidation_carbone demo_env (request_with_convertTo (JNum (Num 0))) = [] \<and>
   modelValidation_carbone demo_env (request_with_convertTo (JStr [])) = []"
  unfolding carbone_segments by (simp add: request_with_convertTo_def eval_defs)

text \<open>
  The value \<open>constructor\<close> is no key of the table either, but it passes \<open>in fileTypes\<close> as
  an inherited property, and no violation is recorded.
\<close>

lemma convertTo_constructor_accepted:
  "modelValidation_carbone demo_env (request_with_convertTo (JStr ''constructor'')) = []"
  unfolding carbone_segments by (simp add: request_with_convertTo_def eval_defs)

text \<open>
  Claim C6, amended. Let \<open>options\<close> be an object. If \<open>options.convertTo\<close> is truthy, does
  not reach the prototype, and is not a string that lower-cased is \<open>pdf\<close> or an own key of
  the supported-type table, the base validator records the \<open>options.convertTo\<close> violation
  with that value. If it is a string that lower-cased is \<open>pdf\<close> or an own key of the
  table, in any letter case, no entry about \<open>options.convertTo\<close> is recorded (the own
  keys of the table taken not to be blank). If it is falsy, none is recorded either.
\<close>

theorem convertTo_violation:
  assumes opts: "field obj ''options'' = JObj ps"
  shows "(truthy (field ps ''convertTo'') \<and> \<not> reaches_prototype E (field ps ''convertTo'') \<and>
          \<not> (\<exists>s. field ps ''convertTo'' = JStr s \<and>
                 (toLowerCase s = ''pdf'' \<or> own_key E (toLowerCase s)))
          \<longrightarrow> invalid_value (field ps ''convertTo'') ''options.convertTo''
                \<in> set (modelValidation_carbone E obj)) \<and>
         ((\<forall>k. own_key E k \<longrightarrow> \<not> validator_isEmpty k) \<and>
          field ps ''convertTo'' = JStr s \<and>
          (toLowerCase s = ''pdf'' \<or> own_key E (toLowerCase s))
          \<longrightarrow> \<not> (\<exists>e \<in> set (modelValidation_carbone E obj). about ''options.convertTo'' e)) \<and>
         (\<not> truthy (field ps ''convertTo'')
          \<longrightarrow> \<not> (\<exists>e \<in> set (modelValidation_carbone E obj). about ''options.convertTo'' e))"
proof -
  have accepted: "\<not> (\<exists>e \<in> set (modelValidation_carbone E obj). about ''options.convertTo'' e)"
    if "carbone_convertTo E (field ps ''convertTo'')"
    unfolding carbone_segments using that by (auto simp: opts carbone_options_def)
  have recorded: "truthy (field ps ''convertTo'') \<and> \<not> reaches_prototype E (field ps ''convertTo'') \<and>
          \<not> (\<exists>s. field ps ''convertTo'' = JStr s \<and>
                 (toLowerCase s = ''pdf'' \<or> own_key E (toLowerCase s)))
          \<longrightarrow> invalid_value (field ps ''convertTo'') ''options.convertTo''
                \<in> set (modelValidation_carbone E obj)"
  proof
    assume "truthy (field ps ''convertTo'') \<and> \<not> reaches_prototype E (field ps ''convertTo'') \<and>
          \<not> (\<exists>s. field ps ''convertTo'' = JStr s \<and>
                 (toLowerCase s = ''pdf'' \<or> own_key E (toLowerCase s)))"
    then have "\<not> carbone_convertTo E (field ps ''convertTo'')"
      using convertTo_rejects by blast
    then show "invalid_value (field ps ''convertTo'') ''options.convertTo''
                \<in> set (modelValidation_carbone E obj)"
      unfolding carbone_segments by (simp add: opts carbone_options_def)
  qed
  have valid: "(\<forall>k. own_key E k \<longrightarrow> \<not> validator_isEmpty k) \<and>
          field ps ''convertTo'' = JStr s \<and>
          (toLowerCase s = ''pdf'' \<or> own_key E (toLowerCase s))
          \<longrightarrow> \<not> (\<exists>e \<in> set (modelValidation_carbone E obj). about ''options.convertTo'' e)"
  proof
    assume "(\<forall>k. own_key E k \<longrightarrow> \<not> validator_isEmpty k) \<and>
          field ps ''convertTo'' = JStr s \<and>
          (toLowerCase s = ''pdf'' \<or> own_key E (toLowerCase s))"
    then have "carbone_convertTo E (field ps ''convertTo'')"
      using convertTo_accepts by simp
    then show "\<not> (\<exists>e \<in> set (modelValidation_carbone E obj). about ''options.convertTo'' e)"
      by (rule accepted)
  qed
  have falsy: "\<not> truthy (field ps ''convertTo'')
          \<longrightarrow> \<not> (\<exists>e \<in> set (modelValidation_carbone E obj). about ''options.convertTo'' e)"
    using accepted convertTo_falsy_accepted by blast
  from recorded valid falsy show ?thesis by (intro conjI)
qed

lemma demo_keys: "\<forall>k. own_key demo_env k \<longrightarrow> \<not> validator_isEmpty k"
  by (simp add: own_key_def demo_env_def validator_isEmpty_def trim_def isWhiteSpace_def)

theorem convertTo_violation_witness:
  "invalid_value (JStr ''exe'') ''options.convertTo''
     \<in> set (modelValidation_carbone demo_env (request_with_convertTo (JStr ''exe''))) \<and>
   \<not> (\<exists>e \<in> set (modelValidation_carbone demo_env (request_with_convertTo (JStr ''DocX''))).
         about ''options.convertTo'' e) \<and>
   \<not> (\<exists>e \<in> set (modelValidation_carbone demo_env (request_with_convertTo (JStr ''''))).
         about ''options.convertTo'' e)"
proof -
  have o: "\<And>v. field (request_with_convertTo v) ''options'' = JObj [(''convertTo'', v)]"
    by (simp add: request_with_convertTo_def field_def)
  have f: "\<And>v. field [(''convertTo'', v)] ''convertTo'' = v"
    by (simp add: field_def)
  have l1: "toLowerCase ''exe'' = ''exe''" and l2: "toLowerCase ''DocX'' = ''docx''"
    by (simp_all add: toLowerCase_def toLowerChar_def)
  have k1: "\<not> own_key demo_env ''exe''" and k2: "own_key demo_env ''docx''"
    and k3: "''exe'' \<notin> set object_prototype_names"
    by (simp_all add: own_key_def demo_env_def object_prototype_names_def)
  show ?thesis
    using convertTo_violation [OF o, of "JStr ''exe''" demo_env "''exe''"]
      convertTo_violation [OF o, of "JStr ''DocX''" demo_env "''DocX''"]
      convertTo_violation [OF o, of "JStr ''''" demo_env "''''"] demo_keys
    by (simp add: f l1 l2 k1 k2 k3)
qed

section \<open>Properties of the size check\<close>

text \<open>
  Claim C3. If the content is not a non-empty string, or the encoding fails the
  \<open>encodingType\<close> check, or the limit does not parse to a byte count of at least one, the
  size check returns false and leaves the file system as it was: no temporary file is
  created and no I/O is performed. Hence whenever the file system changes, all three
  preconditions hold. When they hold and no I/O operation fails, the check creates the
  temporary file, writes the decoded content, reads its size, removes the file, and
  returns whether the decoded byte length is at most the limit.
\<close>

theorem size_preconditions:
  "(\<not> templateContent_content c \<or> \<not> templateContent_encodingType e \<or>
      \<not> (\<exists>x. bytes_parse l = Some (Num x) \<and> 1 \<le> x)
    \<longrightarrow> templateContent_size E io c e l w = (False, w)) \<and>
   (snd (templateContent_size E io c e l w) \<noteq> w
    \<longrightarrow> templateContent_content c \<and> templateContent_encodingType e \<and>
        (\<exists>x. bytes_parse l = Some (Num x) \<and> 1 \<le> x)) \<and>
   (templateContent_content c \<and> templateContent_encodingType e \<and>
      bytes_parse l = Some (Num x) \<and> 1 \<le> x
    \<longrightarrow> templateContent_size E NoFault c e l w =
          (of_nat (buffer_length E c e) \<le> x,
           w\<lparr>io_trace := io_trace w @
                [TmpFileSync (fresh_name (tmp_files w)),
                 WriteFile (fresh_name (tmp_files w)) (buffer_length E c e),
                 StatSync (fresh_name (tmp_files w)),
                 RemoveCallback (fresh_name (tmp_files w))]\<rparr>))"
proof -
  have rejects: "\<not> templateContent_content c \<or> \<not> templateContent_encodingType e \<or>
      \<not> (\<exists>x. bytes_parse l = Some (Num x) \<and> 1 \<le> x)
    \<longrightarrow> templateContent_size E io c e l w = (False, w)"
    using size_rejects by blast
  have only_when: "snd (templateContent_size E io c e l w) \<noteq> w
    \<longrightarrow> templateContent_content c \<and> templateContent_encodingType e \<and>
        (\<exists>x. bytes_parse l = Some (Num x) \<and> 1 \<le> x)"
  proof
    assume changed: "snd (templateContent_size E io c e l w) \<noteq> w"
    show "templateContent_content c \<and> templateContent_encodingType e \<and>
        (\<exists>x. bytes_parse l = Some (Num x) \<and> 1 \<le> x)"
    proof (rule ccontr)
      assume "\<not> ?thesis"
      then have "templateContent_size E io c e l w = (False, w)"
        using size_rejects by blast
      with changed show False by simp
    qed
  qed
  have measures: "templateContent_content c \<and> templateContent_encodingType e \<and>
      bytes_parse l = Some (Num x) \<and> 1 \<le> x
    \<longrightarrow> templateContent_size E NoFault c e l w =
          (of_nat (buffer_length E c e) \<le> x,
           w\<lparr>io_trace := io_trace w @
                [TmpFileSync (fresh_name (tmp_files w)),
                 WriteFile (fresh_name (tmp_files w)) (buffer_length E c e),
                 StatSync (fresh_name (tmp_files w)),
                 RemoveCallback (fresh_name (tmp_files w))]\<rparr>)"
    using size_measures by blast
  from rejects only_when measures show ?thesis by (intro conjI)
qed

theorem size_preconditions_witness:
  "templateContent_size demo_env NoFault (JStr '''') (JStr ''base64'') (JStr ''1kb'') world0
     = (False, world0) \<and>
   templateContent_size demo_env NoFault (JStr ''QUJD'') (JStr ''rot13'') (JStr ''1kb'') world0
     = (False, world0) \<and>
   templateContent_size demo_env NoFault (JStr ''QUJD'') (JStr ''base64'') (JStr ''abc'') world0
     = (False, world0) \<and>
   templateContent_size demo_env NoFault (JStr ''QUJD'') (JStr ''base64'') (JStr ''1kb'') world0
     = (True, \<lparr>tmp_files = [],
               io_trace = [TmpFileSync 1, WriteFile 1 3, StatSync 1, RemoveCallback 1]\<rparr>) \<and>
   templateContent_size demo_env NoFault (JStr ''QUJD'') (JStr ''base64'') (JNum (Num 2)) world0
     = (False, \<lparr>tmp_files = [],
                io_trace = [TmpFileSync 1, WriteFile 1 3, StatSync 1, RemoveCallback 1]\<rparr>)"
proof -
  have c0: "\<not> templateContent_content (JStr '''')"
    and e0: "\<not> templateContent_encodingType (JStr ''rot13'')"
    by (simp_all add: eval_defs)
  have p2: "bytes_parse (JNum (Num 2)) = Some (Num 2)" by simp
  show ?thesis
    using
      size_preconditions [where c = "JStr ''''" and e = "JStr ''base64''" and l = "JStr ''1kb''"
        and E = demo_env and io = NoFault and w = world0]
      size_preconditions [where c = "JStr ''QUJD''" and e = "JStr ''rot13''" and l = "JStr ''1kb''"
        and E = demo_env and io = NoFault and w = world0]
      size_preconditions [where c = "JStr ''QUJD''" and e = "JStr ''base64''" and l = "JStr ''abc''"
        and E = demo_env and io = NoFault and w = world0]
      size_preconditions [where c = "JStr ''QUJD''" and e = "JStr ''base64''" and l = "JStr ''1kb''"
        and E = demo_env and io = NoFault and w = world0 and x = 1024]
      size_preconditions [where c = "JStr ''QUJD''" and e = "JStr ''base64''"
        and l = "JNum (Num 2)" and E = demo_env and io = NoFault and w = world0 and x = 2]
    by (simp add: c0 e0 p2 valid_upload_checks bytes_parse_abc bytes_parse_1kb world0_def
        fresh_name_def)
qed

text \<open>
  Claim C8. Whatever the arguments and whichever I/O operation fails, the temporary files
  that exist after the size check are those that existed before it; and if the call
  created a temporary file, the last operation of the call is the removal of that file.
\<close>

theorem size_releases_tmp_file:
  "tmp_files (snd (templateContent_size E io c e l w)) = tmp_files w \<and>
   (\<forall>f. TmpFileSync f \<in> set (drop (length (io_trace w))
                                (io_trace (snd (templateContent_size E io c e l w))))
        \<longrightarrow> last (io_trace (snd (templateContent_size E io c e l w))) = RemoveCallback f)"
  by (cases io)
     (auto simp: templateContent_size_def size_try_def tmp_fileSync_def emit_def
        removeCallback_def removeAll_fresh Let_def)

lemma size_stat_fault:
  "templateContent_size demo_env StatFault (JStr ''QUJD'') (JStr ''base64'') (JStr ''1kb'') world0
     = (False, \<lparr>tmp_files = [],
                io_trace = [TmpFileSync 1, WriteFile 1 3, ConsoleLog, RemoveCallback 1]\<rparr>)"
  by (simp add: templateContent_size_def size_try_def tmp_fileSync_def emit_def
      removeCallback_def Let_def limit_rejected_def valid_upload_checks bytes_parse_1kb world0_def
      fresh_name_def)

theorem size_releases_tmp_file_witness:
  "tmp_files (snd (templateContent_size demo_env StatFault (JStr ''QUJD'') (JStr ''base64'')
                     (JStr ''1kb'') world0)) = [] \<and>
   TmpFileSync 1 \<in> set (io_trace (snd (templateContent_size demo_env StatFault (JStr ''QUJD'')
                     (JStr ''base64'') (JStr ''1kb'') world0))) \<and>
   last (io_trace (snd (templateContent_size demo_env StatFault (JStr ''QUJD'') (JStr ''base64'')
                     (JStr ''1kb'') world0))) = RemoveCallback 1"
  using size_releases_tmp_file [where E = demo_env and io = StatFault and c = "JStr ''QUJD''"
      and e = "JStr ''base64''" and l = "JStr ''1kb''" and w = world0]
  by (simp add: size_stat_fault world0_sel)

section \<open>Properties of the template validator\<close>

text \<open>
  Claim C2. For the body \<open>{data: {a: 1}, template: {content: "", encodingType: "base64",
  fileType: "docx"}}\<close> the error list holds one entry and nothing else: the violation
  that the empty \<open>content\<close> raises, which is the one of the mandatory-fields check (the
  message naming \<open>content\<close>, \<open>encodingType\<close> and \<open>fileType\<close>). The size check is not run:
  there is no size-limit violation and the file system is untouched. This holds for
  every supported-type table, size limit and I/O behaviour.
\<close>

theorem scenario_empty_content:
  "modelValidation_template E io scenario_body limit w = (Inr [mandatory_missing], w)"
proof -
  have tpl: "field scenario_body ''template'' =
      JObj [(''content'', JStr ''''), (''encodingType'', JStr ''base64''), (''fileType'', JStr ''docx'')]"
    by (simp add: scenario_body_def field_def)
  have obj: "models_template (field scenario_body ''template'')"
    by (simp add: tpl models_template_def)
  have "\<not> isNonEmptyString (get_prop (field scenario_body ''template'') ''content'')"
    unfolding tpl by (simp add: field_def validator_isEmpty_def trim_def)
  then have mand: "\<not> templateContent_mandatory (field scenario_body ''template'')"
    by (simp add: templateContent_mandatory_def)
  show ?thesis
    by (simp add: modelValidation_template_def carbone_scenario obj mand Let_def)
qed

text \<open>
  The stages of the template validator, for a file type that does not reach the
  prototype. A non-empty base list is the result, and nothing else runs. Otherwise: a
  \<open>template\<close> that is not a plain object gives the \<open>template\<close> violation alone; a
  template without its three mandatory non-empty strings gives the mandatory-fields
  violation alone; otherwise the result is the failures of the \<open>fileType\<close>, \<open>content\<close>
  and \<open>encodingType\<close> checks, all collected, followed by the size-limit violation and by
  the conversion violation. The size check runs exactly when none of the three checks
  failed; the conversion check runs in either case.
\<close>

lemma template_stages:
  "(modelValidation_carbone E obj \<noteq> [] \<longrightarrow>
      modelValidation_template E io obj limit w = (Inr (modelValidation_carbone E obj), w)) \<and>
   (modelValidation_carbone E obj = [] \<and> \<not> models_template (field obj ''template'') \<longrightarrow>
      modelValidation_template E io obj limit w =
        (Inr [invalid_value (field obj ''template'') ''template''], w)) \<and>
   (modelValidation_carbone E obj = [] \<and> models_template (field obj ''template'') \<and>
    \<not> templateContent_mandatory (field obj ''template'') \<longrightarrow>
      modelValidation_template E io obj limit w = (Inr [mandatory_missing], w)) \<and>
   (modelValidation_carbone E obj = [] \<and> models_template (field obj ''template'') \<and>
    templateContent_mandatory (field obj ''template'') \<and>
    \<not> reaches_prototype E (get_prop (field obj ''template'') ''fileType'') \<and>
    field_failures E (field obj ''template'') \<noteq> [] \<longrightarrow>
      modelValidation_template E io obj limit w =
        (Inr (field_failures E (field obj ''template'') @ conversion_failures E obj), w)) \<and>
   (modelValidation_carbone E obj = [] \<and> models_template (field obj ''template'') \<and>
    templateContent_mandatory (field obj ''template'') \<and>
    \<not> reaches_prototype E (get_prop (field obj ''template'') ''fileType'') \<and>
    field_failures E (field obj ''template'') = [] \<longrightarrow>
      modelValidation_template E io obj limit w =
        (Inr ((if fst (templateContent_size E io (get_prop (field obj ''template'') ''content'')
                        (get_prop (field obj ''template'') ''encodingType'') limit w)
               then [] else [too_large E limit]) @
              conversion_failures E obj),
         snd (templateContent_size E io (get_prop (field obj ''template'') ''content'')
                (get_prop (field obj ''template'') ''encodingType'') limit w)))"
proof -
  have base: "modelValidation_carbone E obj \<noteq> [] \<longrightarrow>
      modelValidation_template E io obj limit w = (Inr (modelValidation_carbone E obj), w)"
    by (simp add: modelValidation_template_def Let_def)
  have tpl: "modelValidation_carbone E obj = [] \<and> \<not> models_template (field obj ''template'') \<longrightarrow>
      modelValidation_template E io obj limit w =
        (Inr [invalid_value (field obj ''template'') ''template''], w)"
    by (simp add: modelValidation_template_def Let_def)
  have mand: "modelValidation_carbone E obj = [] \<and> models_template (field obj ''template'') \<and>
    \<not> templateContent_mandatory (field obj ''template'') \<longrightarrow>
      modelValidation_template E io obj limit w = (Inr [mandatory_missing], w)"
    by (simp add: modelValidation_template_def Let_def)
  have failed: "modelValidation_carbone E obj = [] \<and> models_template (field obj ''template'') \<and>
    templateContent_mandatory (field obj ''template'') \<and>
    \<not> reaches_prototype E (get_prop (field obj ''template'') ''fileType'') \<and>
    field_failures E (field obj ''template'') \<noteq> [] \<longrightarrow>
      modelValidation_template E io obj limit w =
        (Inr (field_failures E (field obj ''template'') @ conversion_failures E obj), w)"
    by (simp add: template_after_mandatory)
  have passed: "modelValidation_carbone E obj = [] \<and> models_template (field obj ''template'') \<and>
    templateContent_mandatory (field obj ''template'') \<and>
    \<not> reaches_prototype E (get_prop (field obj ''template'') ''fileType'') \<and>
    field_failures E (field obj ''template'') = [] \<longrightarrow>
      modelValidation_template E io obj limit w =
        (Inr ((if fst (templateContent_size E io (get_prop (field obj ''template'') ''content'')
                        (get_prop (field obj ''template'') ''encodingType'') limit w)
               then [] else [too_large E limit]) @
              conversion_failures E obj),
         snd (templateContent_size E io (get_prop (field obj ''template'') ''content'')
                (get_prop (field obj ''template'') ''encodingType'') limit w))"
    by (simp add: template_after_mandatory)
  from base tpl mand failed passed show ?thesis by (intro conjI)
qed

lemma upload_without_data_facts:
  "modelValidation_carbone demo_env upload_without_data = [invalid_value JUndefined ''data'']"
  unfolding carbone_segments by (simp add: upload_without_data_def eval_defs)

lemma upload_without_template_facts:
  "modelValidation_carbone demo_env upload_without_template = []"
  "field upload_without_template ''template'' = JUndefined"
  "\<not> models_template JUndefined"
  unfolding carbone_segments by (simp_all add: upload_without_template_def eval_defs)

lemma scenario_body_facts:
  "models_template (field scenario_body ''template'')"
  "\<not> templateContent_mandatory (field scenario_body ''template'')"
  by (simp_all add: scenario_body_def eval_defs)

lemma upload_bad_fields_facts:
  "modelValidation_carbone demo_env upload_bad_fields = []"
  "models_template (field upload_bad_fields ''template'')"
  "templateContent_mandatory (field upload_bad_fields ''template'')"
  "\<not> reaches_prototype demo_env (get_prop (field upload_bad_fields ''template'') ''fileType'')"
  "field_failures demo_env (field upload_bad_fields ''template'') =
     [invalid_value (JStr ''exe'') ''template.fileType'',
      invalid_value (JStr ''rot13'') ''template.encodingType'']"
  "conversion_failures demo_env upload_bad_fields =
     [unsupported_conversion (JStr ''exe'') (JStr ''pdf'')]"
  unfolding carbone_segments
  by (simp_all add: upload_bad_fields_def eval_defs field_failures_def conversion_failures_def
      selected_output_def templateContent_fileConversion_def)

lemma valid_upload_size:
  "templateContent_size demo_env NoFault (JStr ''QUJD'') (JStr ''base64'') (JStr ''1kb'') world0
     = (True, \<lparr>tmp_files = [],
               io_trace = [TmpFileSync 1, WriteFile 1 3, StatSync 1, RemoveCallback 1]\<rparr>)"
  using size_measures [of "JStr ''QUJD''" "JStr ''base64''" "JStr ''1kb''" 1024 demo_env world0]
  by (simp add: valid_upload_checks bytes_parse_1kb world0_def fresh_name_def)

lemma template_stages_examples:
  "modelValidation_template demo_env NoFault upload_without_data (JStr ''1kb'') world0
     = (Inr [invalid_value JUndefined ''data''], world0) \<and>
   modelValidation_template demo_env NoFault upload_without_template (JStr ''1kb'') world0
     = (Inr [invalid_value JUndefined ''template''], world0) \<and>
   modelValidation_template demo_env NoFault scenario_body (JStr ''1kb'') world0
     = (Inr [mandatory_missing], world0) \<and>
   modelValidation_template demo_env NoFault upload_bad_fields (JStr ''1kb'') world0
     = (Inr [invalid_value (JStr ''exe'') ''template.fileType'',
             invalid_value (JStr ''rot13'') ''template.encodingType'',
             unsupported_conversion (JStr ''exe'') (JStr ''pdf'')], world0) \<and>
   modelValidation_template demo_env NoFault valid_upload (JStr ''1kb'') world0
     = (Inr [], \<lparr>tmp_files = [],
                 io_trace = [TmpFileSync 1, WriteFile 1 3, StatSync 1, RemoveCallback 1]\<rparr>)"
proof (intro conjI)
  show "modelValidation_template demo_env NoFault upload_without_data (JStr ''1kb'') world0
     = (Inr [invalid_value JUndefined ''data''], world0)"
    using template_stages [of demo_env upload_without_data NoFault "JStr ''1kb''" world0]
    by (simp add: upload_without_data_facts)
  show "modelValidation_template demo_env NoFault upload_without_template (JStr ''1kb'') world0
     = (Inr [invalid_value JUndefined ''template''], world0)"
    using template_stages [of demo_env upload_without_template NoFault "JStr ''1kb''" world0]
    by (simp add: upload_without_template_facts)
  show "modelValidation_template demo_env NoFault scenario_body (JStr ''1kb'') world0
     = (Inr [mandatory_missing], world0)"
    using template_stages [of demo_env scenario_body NoFault "JStr ''1kb''" world0]
    by (simp add: carbone_scenario scenario_body_facts)
  show "modelValidation_template demo_env NoFault upload_bad_fields (JStr ''1kb'') world0
     = (Inr [invalid_value (JStr ''exe'') ''template.fileType'',
             invalid_value (JStr ''rot13'') ''template.encodingType'',
             unsupported_conversion (JStr ''exe'') (JStr ''pdf'')], world0)"
    using template_stages [of demo_env upload_bad_fields NoFault "JStr ''1kb''" world0]
    by (simp add: upload_bad_fields_facts)
  show "modelValidation_template demo_env NoFault valid_upload (JStr ''1kb'') world0
     = (Inr [], \<lparr>tmp_files = [],
                 io_trace = [TmpFileSync 1, WriteFile 1 3, StatSync 1, RemoveCallback 1]\<rparr>)"
    using template_stages [of demo_env valid_upload NoFault "JStr ''1kb''" world0]
    by (simp add: carbone_valid_upload valid_upload_facts valid_upload_size)
qed

lemma upload_constructor_facts:
  "modelValidation_carbone demo_env upload_constructor = []"
  "models_template (field upload_constructor ''template'')"
  "templateContent_mandatory (field upload_constructor ''template'')"
  "templateContent_fileType demo_env (get_prop (field upload_constructor ''template'') ''fileType'')"
  "field_failures demo_env (field upload_constructor ''template'') = []"
  "reaches_prototype demo_env (get_prop (field upload_constructor ''template'') ''fileType'')"
  "get_prop (field upload_constructor ''template'') ''content'' = JStr ''QUJD''"
  "get_prop (field upload_constructor ''template'') ''encodingType'' = JStr ''base64''"
  unfolding carbone_segments
  by (simp_all add: upload_constructor_def eval_defs field_failures_def)

lemma default_limit_size:
  "templateContent_size demo_env NoFault (JStr ''QUJD'') (JStr ''base64'')
     (JNum (Num 26214400)) world0
     = (True, \<lparr>tmp_files = [],
               io_trace = [TmpFileSync 1, WriteFile 1 3, StatSync 1, RemoveCallback 1]\<rparr>)"
  using size_measures [of "JStr ''QUJD''" "JStr ''base64''" "JNum (Num 26214400)" 26214400
      demo_env world0]
  by (simp add: valid_upload_checks world0_def fresh_name_def)

text \<open>
  Claim C1 describes the template validator as returning, for every payload, the list
  that ends with the conversion violation when the conversion is not supported. That is
  what the validator does on every file type that does not reach the prototype (see
  \<open>template_stages\<close>). For the upload \<open>{data: {a: 1}, template: {content: "QUJD",
  encodingType: "base64", fileType: "constructor"}}\<close> under the default limit it does
  not: the base check and the mandatory-fields check pass, the \<open>fileType\<close> check accepts
  \<open>constructor\<close> as an inherited property of the table, the size check runs and does its
  I/O, and the conversion check raises a \<open>TypeError\<close>, so that no list is returned.
\<close>

theorem template_constructor_raises:
  "templateContent_fileType demo_env (JStr ''constructor'') \<and>
   modelValidation_template demo_env NoFault upload_constructor (JNum (Num 26214400)) world0 =
     (Inl TypeError,
      \<lparr>tmp_files = [],
       io_trace = [TmpFileSync 1, WriteFile 1 3, StatSync 1, RemoveCallback 1]\<rparr>)"
proof
  show "templateContent_fileType demo_env (JStr ''constructor'')"
    by (simp add: eval_defs)
  show "modelValidation_template demo_env NoFault upload_constructor (JNum (Num 26214400)) world0 =
     (Inl TypeError,
      \<lparr>tmp_files = [],
       io_trace = [TmpFileSync 1, WriteFile 1 3, StatSync 1, RemoveCallback 1]\<rparr>)"
    by (simp add: template_after_mandatory upload_constructor_facts default_limit_size)
qed

text \<open>
  The handler then neither answers nor forwards the request: the exception leaves it.
\<close>

lemma validateTemplate_constructor:
  "validateTemplate demo_env NoFault (JNum (Num 26214400)) upload_constructor res world0 =
     (Inl TypeError, res,
      \<lparr>tmp_files = [],
       io_trace = [TmpFileSync 1, WriteFile 1 3, StatSync 1, RemoveCallback 1]\<rparr>)"
  by (simp add: validateTemplate_def template_after_mandatory upload_constructor_facts
      default_limit_size)

section \<open>Properties of init\<close>

text \<open>
  The size limit is resolved in the order: \<open>options.maxFileSize\<close>, \<open>options["max-file-size"]\<close>,
  the environment variable, \<open>"25MB"\<close>, a falsy value passing to the next; the resolved
  value goes through \<open>bytes.parse\<close> once, in \<open>init\<close>. The default is 26214400 bytes.
\<close>

lemma init_precedence:
  "snd (init options FILE_UPLOADS_MAX_FILE_SIZE) =
     of_parsed (bytes_parse
       (if truthy options \<and> truthy (get_prop options ''maxFileSize'')
        then get_prop options ''maxFileSize''
        else if truthy options \<and> truthy (get_prop options ''max-file-size'')
        then get_prop options ''max-file-size''
        else if truthy FILE_UPLOADS_MAX_FILE_SIZE then FILE_UPLOADS_MAX_FILE_SIZE
        else JStr ''25MB''))"
  by (simp add: init_def Let_def js_or_def js_and_def try_bytes_parse_def)

lemma maxFileSize_initial_bytes: "maxFileSize_initial = JNum (Num 26214400)"
  by (simp add: maxFileSize_initial_def bytes_parse_25MB)

lemma init_default: "init JUndefined JUndefined = (Inr (), JNum (Num 26214400))"
  by (simp add: init_def Let_def js_or_def js_and_def try_bytes_parse_def bytes_parse_25MB)

text \<open>\<open>init\<close> completes normally on every argument: the \<open>catch\<close> clause is never entered.\<close>

lemma init_never_raises: "fst (init options FILE_UPLOADS_MAX_FILE_SIZE) = Inr ()"
  by (simp add: init_def Let_def try_bytes_parse_def)

text \<open>With the default limit the well-formed upload passes.\<close>

lemma valid_upload_default_limit:
  "fst (modelValidation_template demo_env NoFault valid_upload (JNum (Num 26214400)) world0)
     = Inr []"
  using size_measures [of "JStr ''QUJD''" "JStr ''base64''" "JNum (Num 26214400)" 26214400
      demo_env world0]
  by (simp add: valid_upload_result valid_upload_checks)

text \<open>
  Claim C4. The resolution order and the single parse in \<open>init\<close> are as claimed (see
  \<open>init_precedence\<close>), but an unparsable value does not make \<open>init\<close> raise:
  \<open>bytes.parse\<close> reports it by returning \<open>null\<close>, which the \<open>try\<close> block stores. For the
  options \<open>{maxFileSize: "abc"}\<close>, \<open>init\<close> completes normally and the limit becomes
  \<open>null\<close>; the fault then shows while a request is handled: the well-formed upload is
  rejected with the size-limit violation, before any I/O.
\<close>

theorem init_unparsable_deferred:
  "init (JObj [(''maxFileSize'', JStr ''abc'')]) JUndefined = (Inr (), JNull) \<and>
   modelValidation_template demo_env NoFault valid_upload JNull world0 =
     (Inr [too_large demo_env JNull], world0)"
proof
  show "init (JObj [(''maxFileSize'', JStr ''abc'')]) JUndefined = (Inr (), JNull)"
    by (simp add: init_def Let_def js_or_def js_and_def try_bytes_parse_def field_def
        bytes_parse_abc)
  have "templateContent_size demo_env NoFault (JStr ''QUJD'') (JStr ''base64'') JNull world0
          = (False, world0)"
    by (rule size_rejects) simp
  then show "modelValidation_template demo_env NoFault valid_upload JNull world0 =
     (Inr [too_large demo_env JNull], world0)"
    by (simp add: valid_upload_result)
qed

section \<open>The request handlers\<close>

text \<open>
  On a request body whose file type does not reach the prototype the template handler
  hands the validator's list to the adapter, which forwards the request or answers with
  the problem document.
\<close>

lemma validateTemplate_outcome:
  assumes "\<not> reaches_prototype E (get_prop (field body ''template'') ''fileType'')"
  shows "\<exists>errors w'. modelValidation_template E io body maxFileSize w = (Inr errors, w') \<and>
     validateTemplate E io maxFileSize body res w =
       (Inr (), handleValidationErrors res (Some errors), w')"
proof -
  obtain r w' where rw: "modelValidation_template E io body maxFileSize w = (r, w')"
    by (cases "modelValidation_template E io body maxFileSize w")
  with template_returns [OF assms, of io maxFileSize w] obtain errors where "r = Inr errors"
    by auto
  with rw show ?thesis
    by (simp add: validateTemplate_def)
qed

text \<open>The base handler forwards exactly the bodies on which the base validator finds nothing.\<close>

lemma validateCarbone_outcome:
  "validateCarbone E body res =
     (if modelValidation_carbone E body = []
      then res\<lparr>next_calls := Suc (next_calls res)\<rparr>
      else res\<lparr>sent := sent res @
             [Problem 422 ''Validation failed'' (modelValidation_carbone E body)]\<rparr>)"
  by (simp add: validateCarbone_def handleValidationErrors_def)

end
